theory Spec2Isabelle
  imports Complex_Main
begin

section \<open>The UI element view of bokehjs (models/ui/ui_element.ts)\<close>

text \<open>
  A shallow embedding of \<^verbatim>\<open>UIElementView\<close> and of the function \<^verbatim>\<open>_iter_styles\<close>.
  Names follow the source; a leading underscore, which an Isabelle name cannot have, is
  written as the prefix \<open>p_\<close> (\<^verbatim>\<open>_update_bbox\<close> is \<open>p_update_bbox\<close>).

  A JavaScript number is the real number a finite double denotes: there is no NaN and no
  infinity. \<^verbatim>\<open>Math.round\<close> is exact on doubles and is a function of the reals. The
  subtraction of two doubles is not: its result is the nearest double to the difference,
  which HOL's subtraction does not give. It is therefore a parameter, \<open>subtract\<close>, of every
  function that subtracts, and nothing is assumed about it but that its result is finite.
  The DOM is the state the source reads and writes through \<^verbatim>\<open>this.el\<close>; every write is
  kept, in order, in a list.
\<close>

subsection \<open>Values, rectangles and the host element\<close>

text \<open>
  A value of type \<^verbatim>\<open>unknown\<close>, as \<^verbatim>\<open>_iter_styles\<close> yields it. The property type of
  \<^verbatim>\<open>styles\<close> is \<^verbatim>\<open>Dict(Nullable(String))\<close>, so strings and null are what a plain
  mapping holds; the other constructors stand for anything that is not a string.
\<close>

datatype js_value = JString string | JNull | JNumber real | JBoolean bool

fun isString :: "js_value \<Rightarrow> bool" where
  "isString (JString s) = True"
| "isString v = False"

text \<open>
  The four fields of a \<^verbatim>\<open>DOMRect\<close> the source reads, which are also the fields of the
  object \<^verbatim>\<open>new BBox({left, top, width, height})\<close> takes and \<^verbatim>\<open>bbox.box\<close> returns.
\<close>

record Box =
  left :: real
  top :: real
  width :: real
  height :: real

text \<open>
  Modelled from the spec: class \<^verbatim>\<open>BBox\<close> (core/util/bbox) is not among the sources. The
  spec describes it as the rectangle \<open>{left, top, width, height}\<close> whose default has all
  fields zero; \<open>box\<close> is the getter \<^verbatim>\<open>bbox.box\<close>.
\<close>

datatype BBox = BBox (box: Box)

definition BBox_default :: BBox where
  "BBox_default = BBox \<lparr>left = 0, top = 0, width = 0, height = 0\<rparr>"

text \<open>\<^verbatim>\<open>Math.round\<close>: the nearest integer, a tie going towards plus infinity.\<close>

definition round_js :: "real \<Rightarrow> real" where
  "round_js x = of_int \<lfloor>x + 1 / 2\<rfloor>"

text \<open>
  The element \<^verbatim>\<open>this.el\<close>, as far as the source uses it:
  \<^item> \<open>offsetParent\<close>: \<^verbatim>\<open>el.offsetParent\<close>, null when the element is not laid out;
  \<^item> \<open>getBoundingClientRect\<close>: what \<^verbatim>\<open>el.getBoundingClientRect()\<close> returns;
  \<^item> \<open>style_names\<close>: the names \<open>n\<close> for which \<^verbatim>\<open>n in el.style\<close> holds;
  \<^item> \<open>style_writes\<close>: the assignments \<^verbatim>\<open>el.style[n] = v\<close> made so far, oldest first;
  \<^item> \<open>class_list\<close>: the class names handed to the element so far, oldest first.
\<close>

record HTMLElement =
  offsetParent :: "nat option"
  getBoundingClientRect :: Box
  style_names :: "string list"
  style_writes :: "(string \<times> string) list"
  class_list :: "string list"

subsection \<open>Style sources and the model\<close>

text \<open>
  \<^verbatim>\<open>CSSStyles | Styles\<close>: a plain object, whose entries are enumerated in insertion
  order, or an instance of the model \<^verbatim>\<open>Styles\<close>, whose properties are enumerated in
  definition order, each with its \<^verbatim>\<open>attr\<close> and \<^verbatim>\<open>get_value()\<close>.
\<close>

datatype styles_like =
    CSSStyles "(string \<times> js_value) list"
  | Styles "(string \<times> js_value) list"

text \<open>
  Modelled from the spec: class \<^verbatim>\<open>StyleSheet\<close> (core/dom) is not among the sources. The
  spec gives it a current CSS text, \<^verbatim>\<open>clear()\<close> setting the text to empty and
  \<^verbatim>\<open>replace(text)\<close> setting it.
\<close>

record StyleSheet =
  css :: string

definition StyleSheet_replace :: "string \<Rightarrow> StyleSheet \<Rightarrow> StyleSheet" where
  "StyleSheet_replace text s = s\<lparr>css := text\<rparr>"

definition StyleSheet_clear :: "StyleSheet \<Rightarrow> StyleSheet" where
  "StyleSheet_clear s = StyleSheet_replace [] s"

text \<open>\<^verbatim>\<open>StyleSheetLike = StyleSheet | string\<close>.\<close>

datatype StyleSheetLike = CssText string | CssSheet StyleSheet

text \<open>
  An element of \<^verbatim>\<open>(StyleSheetLike | {[key: string]: CSSStyles | Styles})[]\<close>; the plain
  object is the one \<^verbatim>\<open>isPlainObject\<close> accepts.
\<close>

datatype stylesheet_entry =
    Like StyleSheetLike
  | PlainObject "(string \<times> styles_like) list"

text \<open>The model \<^verbatim>\<open>UIElement\<close>: \<^verbatim>\<open>model.type\<close> and the four properties it defines.\<close>

record UIElement =
  model_type :: string
  model_visible :: bool
  model_classes :: "string list"
  model_styles :: styles_like
  model_stylesheets :: "stylesheet_entry list"

subsection \<open>The view\<close>

text \<open>
  \<^verbatim>\<open>SerializableState\<close>: an object, from keys to values; the value under \<^verbatim>\<open>bbox\<close>
  is a box.
\<close>

datatype state_value = SBox Box | SValue js_value

type_synonym SerializableState = "string \<rightharpoonup> state_value"

text \<open>A view of the base class, of which the source reads only \<^verbatim>\<open>el\<close>.\<close>

record DOMElementView =
  el :: HTMLElement

text \<open>
  \<^verbatim>\<open>UIElementView\<close>. The fields \<open>model\<close>, \<open>parent\<close>, \<open>p_display\<close>, \<open>style\<close> and
  \<open>p_bbox\<close> are the source's. The base class \<^verbatim>\<open>DOMComponentView\<close> is not among the
  sources; what its methods return is taken as given:
  \<^item> \<open>css_classes\<close>: the result of \<^verbatim>\<open>this.css_classes()\<close>;
  \<^item> \<open>super_styles\<close>: the result of \<^verbatim>\<open>super.styles()\<close>;
  \<^item> \<open>super_serializable_state\<close>: the result of \<^verbatim>\<open>super.serializable_state()\<close>.
  What its methods and the logger do is kept as lists:
  \<^item> \<open>applied_stylesheets\<close>: the arguments of \<^verbatim>\<open>super._apply_stylesheets\<close>, oldest first;
  \<^item> \<open>traced\<close>: the messages of \<^verbatim>\<open>logger.trace\<close>, oldest first;
  \<^item> \<open>finished\<close>: the number of calls of \<^verbatim>\<open>this.finish()\<close>.
\<close>

record UIElementView = DOMElementView +
  model :: UIElement
  parent :: "DOMElementView option"
  p_display :: StyleSheet
  style :: StyleSheet
  p_bbox :: "BBox option"
  css_classes :: "string list"
  super_styles :: "StyleSheetLike list"
  super_serializable_state :: SerializableState
  applied_stylesheets :: "StyleSheetLike list"
  traced :: "string list"
  finished :: nat

subsection \<open>The bounding box\<close>

text \<open>
  \<^verbatim>\<open>_update_bbox\<close> (lines 91 to 120). The inner arrow functions are the two
  \<open>let\<close>-bound values; \<open>subtract a b\<close> is the source's \<^verbatim>\<open>a - b\<close> on doubles.
\<close>

definition p_update_bbox :: "(real \<Rightarrow> real \<Rightarrow> real) \<Rightarrow> UIElementView \<Rightarrow> UIElementView" where
  "p_update_bbox subtract v =
    (let bbox =
      (if offsetParent (el v) \<noteq> None then
        (let self = getBoundingClientRect (el v);
             (l, t) =
               (case parent v of
                  Some p \<Rightarrow>
                    (let parent_rect = getBoundingClientRect (el p)
                     in (subtract (left self) (left parent_rect),
                         subtract (top self) (top parent_rect)))
                | None \<Rightarrow> (0, 0))
         in BBox \<lparr>left = round_js l, top = round_js t,
                  width = round_js (width self), height = round_js (height self)\<rparr>)
       else BBox_default)
     in v\<lparr>p_bbox := Some bbox\<rparr>)"

text \<open>\<^verbatim>\<open>update_bbox\<close> (lines 87 to 89).\<close>

definition update_bbox :: "(real \<Rightarrow> real \<Rightarrow> real) \<Rightarrow> UIElementView \<Rightarrow> UIElementView" where
  "update_bbox subtract v = p_update_bbox subtract v"

text \<open>
  The getter \<^verbatim>\<open>bbox\<close> (lines 80 to 85): it fills the cache when it is absent, so it
  returns the box together with the view.
\<close>

definition bbox :: "(real \<Rightarrow> real \<Rightarrow> real) \<Rightarrow> UIElementView \<Rightarrow> BBox \<times> UIElementView" where
  "bbox subtract v =
    (let v' = (if p_bbox v = None then p_update_bbox subtract v else v)
     in (the (p_bbox v'), v'))"

text \<open>The getter \<^verbatim>\<open>_is_displayed\<close> (lines 176 to 178).\<close>

definition p_is_displayed :: "UIElementView \<Rightarrow> bool" where
  "p_is_displayed v = (offsetParent (el v) \<noteq> None)"

subsection \<open>Lifecycle: resize and the end of render\<close>

text \<open>
  Modelled from the spec: \<^verbatim>\<open>finish()\<close> belongs to the base view, which is not among
  the sources. The spec calls it the finish signal, the point marking that the element's
  visual and geometric state is stable; here each call is counted.
\<close>

definition finish :: "UIElementView \<Rightarrow> UIElementView" where
  "finish v = v\<lparr>finished := Suc (finished v)\<rparr>"

text \<open>\<^verbatim>\<open>update_style\<close> (lines 67 to 69).\<close>

definition update_style :: "UIElementView \<Rightarrow> UIElementView" where
  "update_style v = v\<lparr>style := StyleSheet_clear (style v)\<rparr>"

text \<open>\<^verbatim>\<open>_after_resize\<close> (line 144), whose body is empty.\<close>

definition p_after_resize :: "UIElementView \<Rightarrow> UIElementView" where
  "p_after_resize v = v"

text \<open>
  \<^verbatim>\<open>after_resize\<close> (lines 146 to 150), which \<^verbatim>\<open>initialize\<close> hands to the
  \<^verbatim>\<open>ResizeObserver\<close> as its callback.
\<close>

definition after_resize :: "(real \<Rightarrow> real \<Rightarrow> real) \<Rightarrow> UIElementView \<Rightarrow> UIElementView" where
  "after_resize subtract v = finish (p_after_resize (update_bbox subtract v))"

text \<open>\<^verbatim>\<open>after_render\<close> (lines 168 to 174).\<close>

definition after_render :: "UIElementView \<Rightarrow> UIElementView" where
  "after_render v =
    (let v1 = update_style v
     in if \<not> p_is_displayed v1 then finish v1 else v1)"

subsection \<open>Inline styles\<close>

text \<open>
  \<^verbatim>\<open>_iter_styles\<close> (lines 28 to 38). The keys of \<^verbatim>\<open>Model.prototype._props\<close> are not
  among the sources: they are the parameter \<open>model_attrs\<close>.
\<close>

fun p_iter_styles :: "string list \<Rightarrow> styles_like \<Rightarrow> (string \<times> js_value) list" where
  "p_iter_styles model_attrs (Styles props) =
     [(attr, value) \<leftarrow> props. attr \<notin> set model_attrs]"
| "p_iter_styles model_attrs (CSSStyles entries) = entries"

text \<open>\<^verbatim>\<open>attr.replace(/_/g, "-")\<close>.\<close>

definition replace_underscores :: "string \<Rightarrow> string" where
  "replace_underscores attr = map (\<lambda>c. if c = CHR ''_'' then CHR ''-'' else c) attr"

text \<open>\<^verbatim>\<open>logger.trace(msg)\<close>.\<close>

definition logger_trace :: "string \<Rightarrow> UIElementView \<Rightarrow> UIElementView" where
  "logger_trace msg v = v\<lparr>traced := traced v @ [msg]\<rparr>"

text \<open>The assignment \<^verbatim>\<open>this.el.style[name] = value\<close> (line 186).\<close>

definition set_style_property :: "string \<Rightarrow> string \<Rightarrow> UIElementView \<Rightarrow> UIElementView" where
  "set_style_property name s v =
     v\<lparr>el := (el v)\<lparr>style_writes := style_writes (el v) @ [(name, s)]\<rparr>\<rparr>"

text \<open>
  The closure \<^verbatim>\<open>apply\<close> of \<^verbatim>\<open>_apply_styles\<close> (lines 183 to 189): it returns
  \<open>known\<close>, and the view after the assignment, if one is made.
\<close>

definition apply_style :: "string \<Rightarrow> js_value \<Rightarrow> UIElementView \<Rightarrow> bool \<times> UIElementView" where
  "apply_style name value v =
    (let known = (name \<in> set (style_names (el v)))
     in (known,
         if known \<and> isString value then
           (case value of JString s \<Rightarrow> set_style_property name s v | _ \<Rightarrow> v)
         else v))"

text \<open>The message \<^verbatim>\<open>`unknown CSS property '${name}'`\<close>.\<close>

definition unknown_property :: "string \<Rightarrow> string" where
  "unknown_property name = ''unknown CSS property '' @ [CHR 0x27] @ name @ [CHR 0x27]"

text \<open>
  The body of the loop of \<^verbatim>\<open>_apply_styles\<close> (lines 192 to 197); \<^verbatim>\<open>&&\<close> does not
  evaluate its second operand when the first is false.
\<close>

definition apply_styles_step :: "string \<times> js_value \<Rightarrow> UIElementView \<Rightarrow> UIElementView" where
  "apply_styles_step entry v =
    (case entry of (attr, value) \<Rightarrow>
      (let name = replace_underscores attr;
           (known, v1) = apply_style name value v
       in if \<not> known then
            (let (known_webkit, v2) = apply_style (''-webkit-'' @ name) value v1
             in if \<not> known_webkit then
                  (let (known_moz, v3) = apply_style (''-moz-'' @ name) value v2
                   in if \<not> known_moz then logger_trace (unknown_property name) v3 else v3)
                else v2)
          else v1))"

fun apply_styles_loop :: "(string \<times> js_value) list \<Rightarrow> UIElementView \<Rightarrow> UIElementView" where
  "apply_styles_loop [] v = v"
| "apply_styles_loop (entry # rest) v = apply_styles_loop rest (apply_styles_step entry v)"

text \<open>\<^verbatim>\<open>_apply_styles\<close> (lines 180 to 199).\<close>

definition p_apply_styles :: "string list \<Rightarrow> UIElementView \<Rightarrow> UIElementView" where
  "p_apply_styles model_attrs v =
     apply_styles_loop (p_iter_styles model_attrs (model_styles (model v))) v"

subsection \<open>Stylesheets\<close>

text \<open>\<^verbatim>\<open>Array.prototype.join\<close>.\<close>

fun join :: "string \<Rightarrow> string list \<Rightarrow> string" where
  "join sep [] = []"
| "join sep [x] = x"
| "join sep (x # y # ys) = x @ sep @ join sep (y # ys)"

text \<open>
  The inner loop of \<^verbatim>\<open>_apply_stylesheets\<close> (lines 209 to 215), pushing onto
  \<open>output\<close>.
\<close>

fun push_declarations :: "(string \<times> js_value) list \<Rightarrow> string list \<Rightarrow> string list" where
  "push_declarations [] output = output"
| "push_declarations ((attr, value) # rest) output =
    (let name = replace_underscores attr
     in push_declarations rest
          (case value of
             JString s \<Rightarrow>
               if length s \<noteq> 0 then output @ [''  '' @ name @ '': '' @ s @ '';''] else output
           | _ \<Rightarrow> output))"

text \<open>The outer loop (lines 206 to 218).\<close>

fun push_blocks :: "string list \<Rightarrow> (string \<times> styles_like) list \<Rightarrow> string list \<Rightarrow> string list" where
  "push_blocks model_attrs [] output = output"
| "push_blocks model_attrs ((selector, styles) # rest) output =
    push_blocks model_attrs rest
      (push_declarations (p_iter_styles model_attrs styles) (output @ [selector @ '' {'']) @ [''}''])"

text \<open>The function mapped over the stylesheets (lines 202 to 223).\<close>

definition render_stylesheet :: "string list \<Rightarrow> stylesheet_entry \<Rightarrow> StyleSheetLike" where
  "render_stylesheet model_attrs stylesheet =
    (case stylesheet of
       PlainObject entries \<Rightarrow> CssText (join [CHR 0x0A] (push_blocks model_attrs entries []))
     | Like s \<Rightarrow> s)"

text \<open>
  Modelled from the spec: \<^verbatim>\<open>super._apply_stylesheets\<close> belongs to
  \<^verbatim>\<open>DOMComponentView\<close>, which is not among the sources. The spec lists
  \<open>apply_stylesheets(node, ordered-sequence<text>)\<close> as an operation of the host; the
  sheets handed over are appended to \<open>applied_stylesheets\<close>. A \<^verbatim>\<open>StyleSheet\<close> object is
  entered with the text it has at that moment.
\<close>

definition super_apply_stylesheets :: "StyleSheetLike list \<Rightarrow> UIElementView \<Rightarrow> UIElementView" where
  "super_apply_stylesheets sheets v = v\<lparr>applied_stylesheets := applied_stylesheets v @ sheets\<rparr>"

text \<open>\<^verbatim>\<open>_apply_stylesheets\<close> (lines 201 to 224).\<close>

definition p_apply_stylesheets ::
  "string list \<Rightarrow> stylesheet_entry list \<Rightarrow> UIElementView \<Rightarrow> UIElementView" where
  "p_apply_stylesheets model_attrs stylesheets v =
     super_apply_stylesheets (map (render_stylesheet model_attrs) stylesheets) v"

text \<open>The generator \<^verbatim>\<open>_stylesheets\<close> and the getter \<^verbatim>\<open>stylesheets\<close> (lines 46 to 53).\<close>

definition p_stylesheets :: "UIElementView \<Rightarrow> StyleSheet list" where
  "p_stylesheets v = [style v, p_display v]"

definition stylesheets :: "UIElementView \<Rightarrow> StyleSheet list" where
  "stylesheets v = p_stylesheets v"

text \<open>
  \<^verbatim>\<open>styles\<close> (lines 63 to 65). The constant \<^verbatim>\<open>ui_css\<close> of styles/ui.css is not among
  the sources: it is a parameter.
\<close>

definition styles :: "StyleSheetLike \<Rightarrow> UIElementView \<Rightarrow> StyleSheetLike list" where
  "styles ui_css v = super_styles v @ [ui_css]"

subsection \<open>Classes\<close>

text \<open>The generator \<^verbatim>\<open>_classes\<close> and the getter \<^verbatim>\<open>classes\<close> (lines 55 to 61).\<close>

definition p_classes :: "UIElementView \<Rightarrow> string list" where
  "p_classes v = [''bk-'' @ model_type (model v)]"

definition classes :: "UIElementView \<Rightarrow> string list" where
  "classes v = css_classes v @ p_classes v"

text \<open>
  Modelled from the spec: \<^verbatim>\<open>_apply_classes\<close> belongs to \<^verbatim>\<open>DOMComponentView\<close>, which
  is not among the sources. The spec lists \<open>apply_classes(node, ordered-sequence<string>)\<close>
  as an operation of the host, which accepts a flat ordered list; the names handed over
  are appended to \<open>class_list\<close>.
\<close>

definition p_apply_classes :: "string list \<Rightarrow> UIElementView \<Rightarrow> UIElementView" where
  "p_apply_classes names v = v\<lparr>el := (el v)\<lparr>class_list := class_list (el v) @ names\<rparr>\<rparr>"

subsection \<open>Visibility\<close>

text \<open>\<^verbatim>\<open>_apply_visible\<close> (lines 226 to 233).\<close>

definition p_apply_visible :: "UIElementView \<Rightarrow> UIElementView" where
  "p_apply_visible v =
    (if model_visible (model v) then v\<lparr>p_display := StyleSheet_clear (p_display v)\<rparr>
     else v\<lparr>p_display :=
            StyleSheet_replace '':host { display: none !important; }'' (p_display v)\<rparr>)"

subsection \<open>Render\<close>

text \<open>
  Modelled from the spec: \<^verbatim>\<open>empty()\<close> belongs to \<^verbatim>\<open>DOMComponentView\<close>, which is not
  among the sources. The spec has render begin by clearing the content rendered before:
  the stylesheets and the class names handed over so far are dropped.
\<close>

definition empty :: "UIElementView \<Rightarrow> UIElementView" where
  "empty v = v\<lparr>el := (el v)\<lparr>class_list := []\<rparr>, applied_stylesheets := []\<rparr>"

text \<open>\<^verbatim>\<open>render\<close> (lines 157 to 166).\<close>

definition render :: "string list \<Rightarrow> StyleSheetLike \<Rightarrow> UIElementView \<Rightarrow> UIElementView" where
  "render model_attrs ui_css v =
    (let v1 = empty v;
         v2 = p_apply_stylesheets model_attrs (map Like (styles ui_css v1)) v1;
         v3 = p_apply_stylesheets model_attrs (map (Like \<circ> CssSheet) (stylesheets v2)) v2;
         v4 = p_apply_stylesheets model_attrs (model_stylesheets (model v3)) v3;
         v5 = p_apply_styles model_attrs v4;
         v6 = p_apply_classes (classes v5) v5;
         v7 = p_apply_classes (model_classes (model v6)) v6
     in p_apply_visible v7)"

subsection \<open>Serialization\<close>

text \<open>
  \<^verbatim>\<open>serializable_state\<close> (lines 243 to 248): the object spread, then the key
  \<^verbatim>\<open>bbox\<close>. Reading \<^verbatim>\<open>this.bbox\<close> may fill the cache, so the view is returned too.
\<close>

definition serializable_state ::
  "(real \<Rightarrow> real \<Rightarrow> real) \<Rightarrow> UIElementView \<Rightarrow> SerializableState \<times> UIElementView" where
  "serializable_state subtract v =
    (let (b, v') = bbox subtract v
     in ((super_serializable_state v')(''bbox'' \<mapsto> SBox (box b)), v'))"

subsection \<open>What the inline styles amount to\<close>

text \<open>
  The spec's description of the style composer, to compare the loop of
  \<^verbatim>\<open>_apply_styles\<close> with. A property is assigned under the first name the host
  recognizes among the name itself, the name with \<open>-webkit-\<close> and the name with
  \<open>-moz-\<close>; \<open>names\<close> are the names the host recognizes.
\<close>

definition first_known :: "string list \<Rightarrow> string \<Rightarrow> string option" where
  "first_known names name =
     find (\<lambda>n. n \<in> set names) [name, ''-webkit-'' @ name, ''-moz-'' @ name]"

text \<open>
  The assignments one pair causes: one, for a string value whose name is recognized in
  some variant, and none otherwise.
\<close>

fun spec_writes :: "string list \<Rightarrow> string \<times> js_value \<Rightarrow> (string \<times> string) list" where
  "spec_writes names (attr, JString s) =
     (case first_known names (replace_underscores attr) of
        Some n \<Rightarrow> [(n, s)]
      | None \<Rightarrow> [])"
| "spec_writes names (attr, value) = []"

text \<open>The diagnostics one pair causes: one, when no variant of its name is recognized.\<close>

definition spec_diagnostics :: "string list \<Rightarrow> string \<times> js_value \<Rightarrow> string list" where
  "spec_diagnostics names entry =
     (case first_known names (replace_underscores (fst entry)) of
        Some n \<Rightarrow> []
      | None \<Rightarrow> [unknown_property (replace_underscores (fst entry))])"

text \<open>The view whose model has the styles \<open>s\<close>.\<close>

definition with_styles :: "styles_like \<Rightarrow> UIElementView \<Rightarrow> UIElementView" where
  "with_styles s v = v\<lparr>model := (model v)\<lparr>model_styles := s\<rparr>\<rparr>"

subsection \<open>What a rendered stylesheet amounts to\<close>

text \<open>
  The spec's description of a rendered mapping, to compare the loops of
  \<^verbatim>\<open>_apply_stylesheets\<close> with: one declaration line for a pair whose value is a
  string that is not empty, none for any other pair.
\<close>

fun spec_declaration :: "string \<times> js_value \<Rightarrow> string list" where
  "spec_declaration (attr, JString s) =
     (if s = [] then [] else [''  '' @ replace_underscores attr @ '': '' @ s @ '';''])"
| "spec_declaration (attr, x) = []"

text \<open>The block of one selector: its opening line, its declarations, its closing line.\<close>

definition spec_block :: "string list \<Rightarrow> string \<times> styles_like \<Rightarrow> string list" where
  "spec_block model_attrs entry =
     [fst entry @ '' {'']
       @ concat (map spec_declaration (p_iter_styles model_attrs (snd entry)))
       @ [''}'']"

subsection \<open>A change of the model's visibility\<close>

text \<open>
  The assignment \<^verbatim>\<open>model.visible = b\<close>, after which the handler that
  \<^verbatim>\<open>connect_signals\<close> registers (line 135) runs \<^verbatim>\<open>_apply_visible\<close>.
\<close>

definition set_visible :: "bool \<Rightarrow> UIElementView \<Rightarrow> UIElementView" where
  "set_visible b v = p_apply_visible (v\<lparr>model := (model v)\<lparr>model_visible := b\<rparr>\<rparr>)"

subsection \<open>Concrete elements and views\<close>

text \<open>
  The subtraction at the concrete views below. Their coordinates are doubles whose
  differences are doubles (10.5 - 3 is 7.5, 2 - 4.5 is -2.5), so the subtraction of
  doubles rounds nothing there.
\<close>

definition subtract_exact :: "real \<Rightarrow> real \<Rightarrow> real" where
  "subtract_exact a b = a - b"

text \<open>
  An element that is laid out, at (10.5, 2) with size 120.25 by 40.5, whose style knows
  three property names.
\<close>

definition host_el :: HTMLElement where
  "host_el =
    \<lparr>offsetParent = Some 0,
     getBoundingClientRect = \<lparr>left = 21 / 2, top = 2, width = 481 / 4, height = 81 / 2\<rparr>,
     style_names = [''color'', ''-webkit-mask'', ''-moz-appearance''],
     style_writes = [],
     class_list = []\<rparr>"

definition parent_el :: HTMLElement where
  "parent_el =
    \<lparr>offsetParent = Some 1,
     getBoundingClientRect = \<lparr>left = 3, top = 9 / 2, width = 800, height = 600\<rparr>,
     style_names = [], style_writes = [], class_list = []\<rparr>"

definition button_model :: UIElement where
  "button_model =
    \<lparr>model_type = ''button'', model_visible = True, model_classes = [''a'', ''b''],
     model_styles = CSSStyles [], model_stylesheets = []\<rparr>"

text \<open>A view without a parent, just initialized: nothing cached, nothing applied.\<close>

definition root_view :: UIElementView where
  "root_view =
    \<lparr>el = host_el, model = button_model, parent = None,
     p_display = \<lparr>css = []\<rparr>, style = \<lparr>css = []\<rparr>, p_bbox = None,
     css_classes = [], super_styles = [], super_serializable_state = Map.empty,
     applied_stylesheets = [], traced = [], finished = 0\<rparr>"

definition child_view :: UIElementView where
  "child_view = root_view\<lparr>parent := Some \<lparr>el = parent_el\<rparr>\<rparr>"

text \<open>
  Operands at which the subtraction of doubles rounds: the doubles nearest to 100.6 and
  to 0.1. Their difference is not a double; the nearest double is 100.5.
\<close>

definition double_100_6 :: real where
  "double_100_6 = 3539547832136499 / 35184372088832"

definition double_0_1 :: real where
  "double_0_1 = 3602879701896397 / 36028797018963968"

definition subtract_rounding :: "real \<Rightarrow> real \<Rightarrow> real" where
  "subtract_rounding a b = (if a = double_100_6 \<and> b = double_0_1 then 201 / 2 else a - b)"

text \<open>A child measured at left 100.6 whose parent is measured at left 0.1.\<close>

definition offset_view :: UIElementView where
  "offset_view =
     root_view
       \<lparr>el := host_el\<lparr>getBoundingClientRect :=
               \<lparr>left = double_100_6, top = 2, width = 481 / 4, height = 81 / 2\<rparr>\<rparr>,
        parent := Some \<lparr>el = parent_el\<lparr>getBoundingClientRect :=
               \<lparr>left = double_0_1, top = 9 / 2, width = 800, height = 600\<rparr>\<rparr>\<rparr>\<rparr>"

text \<open>The same view when its element is not laid out.\<close>

definition hidden_view :: UIElementView where
  "hidden_view = root_view\<lparr>el := host_el\<lparr>offsetParent := None\<rparr>\<rparr>"

text \<open>A view that is not laid out any more and still holds the box it had before.\<close>

definition stale_view :: UIElementView where
  "stale_view =
     hidden_view\<lparr>p_bbox := Some (BBox \<lparr>left = 0, top = 0, width = 120, height = 41\<rparr>)\<rparr>"

text \<open>
  A model with one style for each way a name can be recognized, one that is not
  recognized, and two values that are not strings.
\<close>

definition styled_model :: UIElement where
  "styled_model = button_model\<lparr>model_styles :=
     CSSStyles [(''color'', JString ''red''), (''mask'', JString ''none''),
                (''appearance'', JString ''auto''), (''foo_bar'', JString ''1''),
                (''color'', JNull), (''baz'', JNull)]\<rparr>"

definition styled_view :: UIElementView where
  "styled_view = root_view\<lparr>model := styled_model\<rparr>"

text \<open>A view whose styles hold no string at all.\<close>

definition null_styled_view :: UIElementView where
  "null_styled_view = with_styles (CSSStyles [(''color'', JNull), (''baz'', JNull)]) root_view"

text \<open>
  Pairs of which the first and the last carry the name of a property of the base model,
  when \<open>name\<close> and \<open>tags\<close> are such names.
\<close>

definition typed_pairs :: "(string \<times> js_value) list" where
  "typed_pairs = [(''name'', JString ''x''), (''color'', JString ''red''), (''tags'', JNull)]"

text \<open>
  A mapping of two selectors: the first has no valid declaration, the second is a typed
  record with a property of the base model and one declaration.
\<close>

definition two_blocks :: stylesheet_entry where
  "two_blocks = PlainObject
     [(''.a'', CSSStyles [(''color'', JNull), (''margin_top'', JString '''')]),
      (''.b'', Styles [(''name'', JString ''x''), (''font_size'', JString ''12px'')])]"

section \<open>Theorems\<close>

subsection \<open>Rounding\<close>

lemma round_js_nearest: "\<bar>round_js x - x\<bar> \<le> 1 / 2"
  unfolding round_js_def by linarith

lemma round_js_zero: "round_js 0 = 0"
  by (simp add: round_js_def)

lemma round_js_of_int: "round_js (of_int n) = of_int n"
  unfolding round_js_def by (simp add: floor_unique)

subsection \<open>Frame lemmas of the inline styles\<close>

lemma apply_style_frame:
  "model (snd (apply_style n x v)) = model v"
  "css_classes (snd (apply_style n x v)) = css_classes v"
  "class_list (el (snd (apply_style n x v))) = class_list (el v)"
  "style_names (el (snd (apply_style n x v))) = style_names (el v)"
  "fst (apply_style n x v) = (n \<in> set (style_names (el v)))"
  by (cases x; simp add: apply_style_def set_style_property_def Let_def)+

lemma apply_styles_step_frame:
  "model (apply_styles_step e v) = model v"
  "css_classes (apply_styles_step e v) = css_classes v"
  "class_list (el (apply_styles_step e v)) = class_list (el v)"
  "style_names (el (apply_styles_step e v)) = style_names (el v)"
  by (cases e; cases "snd e";
      simp add: apply_styles_step_def apply_style_def set_style_property_def Let_def
        logger_trace_def)+

lemma apply_styles_loop_frame:
  "model (apply_styles_loop ps v) = model v \<and>
   css_classes (apply_styles_loop ps v) = css_classes v \<and>
   class_list (el (apply_styles_loop ps v)) = class_list (el v) \<and>
   style_names (el (apply_styles_loop ps v)) = style_names (el v)"
  by (induction ps arbitrary: v) (simp_all add: apply_styles_step_frame)

subsection \<open>The bounding box\<close>

text \<open>
  C1, as amended. Recomputing the bounding box replaces the cached box and nothing else.
  For an element that is laid out and has a parent view, left and top are the element's
  measured left and top minus the parent's, rounded, and width and height are the measured
  width and height, rounded; the difference is the one the subtraction of doubles gives,
  whatever it is. For an element that is laid out and has no parent view, left
  and top are 0, whatever was measured, and width and height are the measured ones,
  rounded. For an element that is not laid out the box is the default one, all zero. In
  every case the four fields are integers.
\<close>

theorem update_bbox_rule:
  "(offsetParent (el v) \<noteq> None \<and> parent v = Some p \<longrightarrow>
      p_update_bbox subtract v = v\<lparr>p_bbox := Some (BBox
        \<lparr>left = round_js (subtract (left (getBoundingClientRect (el v)))
                               (left (getBoundingClientRect (el p)))),
         top = round_js (subtract (top (getBoundingClientRect (el v)))
                              (top (getBoundingClientRect (el p)))),
         width = round_js (width (getBoundingClientRect (el v))),
         height = round_js (height (getBoundingClientRect (el v)))\<rparr>)\<rparr>)
   \<and> (offsetParent (el v) \<noteq> None \<and> parent v = None \<longrightarrow>
      p_update_bbox subtract v = v\<lparr>p_bbox := Some (BBox
        \<lparr>left = 0, top = 0,
         width = round_js (width (getBoundingClientRect (el v))),
         height = round_js (height (getBoundingClientRect (el v)))\<rparr>)\<rparr>)
   \<and> (offsetParent (el v) = None \<longrightarrow>
      p_update_bbox subtract v = v\<lparr>p_bbox := Some (BBox \<lparr>left = 0, top = 0, width = 0, height = 0\<rparr>)\<rparr>)
   \<and> (\<exists>l t w h. p_bbox (p_update_bbox subtract v) =
          Some (BBox \<lparr>left = of_int l, top = of_int t, width = of_int w, height = of_int h\<rparr>))"
  by (auto simp: p_update_bbox_def BBox_default_def round_js_zero Let_def round_js_def
      split: option.splits)

text \<open>
  The three cases at concrete views: a child at (10.5, 2) of a parent at (3, 4.5), the
  same element without a parent, and the same element when it is not laid out. Then a
  child at left 100.6 of a parent at left 0.1, where the subtraction of doubles gives
  100.5 and the box has left 101, while the difference of the two reals rounds to 100.
\<close>

theorem update_bbox_rule_witness:
  "offsetParent (el child_view) \<noteq> None \<and> parent child_view = Some \<lparr>el = parent_el\<rparr>
   \<and> p_bbox (p_update_bbox subtract_exact child_view)
       = Some (BBox \<lparr>left = 8, top = -2, width = 120, height = 41\<rparr>)
   \<and> offsetParent (el root_view) \<noteq> None \<and> parent root_view = None
   \<and> p_bbox (p_update_bbox subtract_exact root_view)
       = Some (BBox \<lparr>left = 0, top = 0, width = 120, height = 41\<rparr>)
   \<and> offsetParent (el hidden_view) = None
   \<and> p_bbox (p_update_bbox subtract_exact hidden_view)
       = Some (BBox \<lparr>left = 0, top = 0, width = 0, height = 0\<rparr>)
   \<and> offsetParent (el offset_view) \<noteq> None
   \<and> subtract_rounding double_100_6 double_0_1 = 201 / 2
   \<and> p_bbox (p_update_bbox subtract_rounding offset_view)
       = Some (BBox \<lparr>left = 101, top = -2, width = 120, height = 41\<rparr>)
   \<and> round_js (double_100_6 - double_0_1) = 100"
proof -
  note defs = child_view_def root_view_def hidden_view_def host_el_def parent_el_def
  have "offsetParent (el child_view) \<noteq> None \<and> parent child_view = Some \<lparr>el = parent_el\<rparr>
     \<and> p_bbox (p_update_bbox subtract_exact child_view)
         = Some (BBox \<lparr>left = 8, top = -2, width = 120, height = 41\<rparr>)"
    using update_bbox_rule [of child_view "\<lparr>el = parent_el\<rparr>" subtract_exact]
    by (simp add: defs round_js_def subtract_exact_def)
  moreover have "offsetParent (el root_view) \<noteq> None \<and> parent root_view = None
     \<and> p_bbox (p_update_bbox subtract_exact root_view)
         = Some (BBox \<lparr>left = 0, top = 0, width = 120, height = 41\<rparr>)"
    using update_bbox_rule [of root_view _ subtract_exact]
    by (simp add: defs round_js_def)
  moreover have "offsetParent (el hidden_view) = None
     \<and> p_bbox (p_update_bbox subtract_exact hidden_view)
         = Some (BBox \<lparr>left = 0, top = 0, width = 0, height = 0\<rparr>)"
    using update_bbox_rule [of hidden_view _ subtract_exact]
    by (simp add: defs)
  moreover have "offsetParent (el offset_view) \<noteq> None
     \<and> subtract_rounding double_100_6 double_0_1 = 201 / 2
     \<and> p_bbox (p_update_bbox subtract_rounding offset_view)
         = Some (BBox \<lparr>left = 101, top = -2, width = 120, height = 41\<rparr>)"
    using update_bbox_rule
      [of offset_view
          "\<lparr>el = parent_el\<lparr>getBoundingClientRect :=
               \<lparr>left = double_0_1, top = 9 / 2, width = 800, height = 600\<rparr>\<rparr>\<rparr>"
          subtract_rounding]
    by (simp add: offset_view_def defs round_js_def subtract_rounding_def double_100_6_def
        double_0_1_def)
  moreover have "round_js (double_100_6 - double_0_1) = 100"
    by (simp add: round_js_def double_100_6_def double_0_1_def)
  ultimately show ?thesis
    by simp
qed

text \<open>
  C1 as stated fails: the element of \<open>root_view\<close> is laid out, has no parent view and is
  measured at left 10.5, which rounds to 11, yet the recomputed box has left 0.
\<close>

theorem update_bbox_no_parent_counterexample:
  "offsetParent (el root_view) \<noteq> None \<and> parent root_view = None
   \<and> left (getBoundingClientRect (el root_view)) = 21 / 2
   \<and> round_js (left (getBoundingClientRect (el root_view))) = 11
   \<and> left (box (the (p_bbox (p_update_bbox subtract_exact root_view)))) = 0
   \<and> left (box (the (p_bbox (p_update_bbox subtract_exact root_view))))
       \<noteq> round_js (left (getBoundingClientRect (el root_view)))"
  by (simp add: p_update_bbox_def root_view_def host_el_def round_js_def)

subsection \<open>Classes\<close>

text \<open>
  C2, as amended. The query \<open>classes\<close> returns the classes of the base view followed by
  the single structural class, \<open>bk-\<close> and the kind name; the classes the model declares
  are not part of it. Render hands \<open>classes\<close> and then the model's classes, in declared
  order and with their duplicates, to the element. For the kind \<open>button\<close>, the model
  classes \<open>a\<close>, \<open>b\<close> and no class of the base view, \<open>classes\<close> is \<open>bk-button\<close> alone
  and the element receives \<open>bk-button\<close>, \<open>a\<close>, \<open>b\<close>, in this order.
\<close>

theorem classes_rule:
  "classes v = css_classes v @ [''bk-'' @ model_type (model v)]
   \<and> class_list (el (render model_attrs ui_css v)) = classes v @ model_classes (model v)
   \<and> (css_classes v = [] \<and> model_type (model v) = ''button''
        \<and> model_classes (model v) = [''a'', ''b'']
        \<longrightarrow> classes v = [''bk-button'']
          \<and> class_list (el (render model_attrs ui_css v)) = [''bk-button'', ''a'', ''b''])"
  by (simp add: classes_def p_classes_def render_def Let_def p_apply_visible_def
      p_apply_classes_def p_apply_styles_def apply_styles_loop_frame p_apply_stylesheets_def
      super_apply_stylesheets_def empty_def)

theorem classes_rule_witness:
  "css_classes root_view = [] \<and> model_type (model root_view) = ''button''
   \<and> model_classes (model root_view) = [''a'', ''b'']
   \<and> classes root_view = [''bk-button'']
   \<and> class_list (el (render [''name'', ''tags''] (CssText ''ui'') root_view))
       = [''bk-button'', ''a'', ''b'']"
  using classes_rule [of root_view "[''name'', ''tags'']" "CssText ''ui''"]
  by (simp add: root_view_def button_model_def)

text \<open>
  C2 as stated fails: for the kind \<open>button\<close> and the model classes \<open>a\<close>, \<open>b\<close> the query
  returns \<open>bk-button\<close> alone.
\<close>

theorem classes_counterexample:
  "model_type (model root_view) = ''button'' \<and> model_classes (model root_view) = [''a'', ''b'']
   \<and> classes root_view = [''bk-button'']
   \<and> classes root_view \<noteq> [''bk-button'', ''a'', ''b'']"
  by (simp add: classes_def p_classes_def root_view_def button_model_def)

subsection \<open>What recomputes the bounding box\<close>

text \<open>
  C3, as amended. A resize notification recomputes the cached box, whatever was cached,
  and then gives the finish signal. The end of render does not recompute it: it clears the
  view's own stylesheet, gives the finish signal when the element is not laid out, and
  leaves the cached box as it was.
\<close>

theorem bbox_triggers:
  "after_resize subtract v = finish (p_update_bbox subtract v)
   \<and> p_bbox (after_resize subtract (v\<lparr>p_bbox := cached\<rparr>))
       = p_bbox (p_update_bbox subtract v)
   \<and> p_bbox (after_render v) = p_bbox v
   \<and> after_render v = (if p_is_displayed v then update_style v else finish (update_style v))"
  by (simp add: after_resize_def after_render_def update_bbox_def p_after_resize_def finish_def
      p_update_bbox_def update_style_def p_is_displayed_def Let_def)

text \<open>
  C3 as stated fails: \<open>stale_view\<close> is not laid out and holds a box of 120 by 41; after
  the end of render it still holds it, while a recomputation gives the zero box.
\<close>

theorem after_render_counterexample:
  "\<not> p_is_displayed stale_view
   \<and> p_bbox stale_view = Some (BBox \<lparr>left = 0, top = 0, width = 120, height = 41\<rparr>)
   \<and> p_bbox (after_render stale_view)
       = Some (BBox \<lparr>left = 0, top = 0, width = 120, height = 41\<rparr>)
   \<and> p_bbox (p_update_bbox subtract_exact stale_view)
       = Some (BBox \<lparr>left = 0, top = 0, width = 0, height = 0\<rparr>)
   \<and> p_bbox (after_render stale_view) \<noteq> p_bbox (p_update_bbox subtract_exact stale_view)"
  by (simp add: after_render_def update_style_def p_is_displayed_def finish_def
      p_update_bbox_def stale_view_def hidden_view_def root_view_def host_el_def
      BBox_default_def Let_def)

subsection \<open>Inline styles\<close>

text \<open>The loop of \<^verbatim>\<open>_apply_styles\<close> in closed form.\<close>

lemma apply_styles_step_closed:
  "apply_styles_step e v =
     v\<lparr>el := (el v)\<lparr>style_writes := style_writes (el v) @ spec_writes (style_names (el v)) e\<rparr>,
       traced := traced v @ spec_diagnostics (style_names (el v)) e\<rparr>"
proof (cases e)
  case (Pair attr x)
  show ?thesis
    unfolding Pair
    by (cases x)
      (simp_all add: apply_styles_step_def apply_style_def set_style_property_def Let_def
        logger_trace_def spec_diagnostics_def first_known_def)
qed

lemma apply_styles_loop_closed:
  "apply_styles_loop ps v =
     v\<lparr>el := (el v)\<lparr>style_writes :=
            style_writes (el v) @ concat (map (spec_writes (style_names (el v))) ps)\<rparr>,
       traced := traced v @ concat (map (spec_diagnostics (style_names (el v))) ps)\<rparr>"
proof (induction ps arbitrary: v)
  case Nil
  show ?case by simp
next
  case (Cons e ps)
  show ?case
    by (simp add: Cons.IH apply_styles_step_frame) (simp add: apply_styles_step_closed)
qed

lemma p_apply_styles_closed:
  "p_apply_styles ma v =
     v\<lparr>el := (el v)\<lparr>style_writes := style_writes (el v) @
            concat (map (spec_writes (style_names (el v)))
              (p_iter_styles ma (model_styles (model v))))\<rparr>,
       traced := traced v @
            concat (map (spec_diagnostics (style_names (el v)))
              (p_iter_styles ma (model_styles (model v))))\<rparr>"
  by (simp add: p_apply_styles_def apply_styles_loop_closed)

lemma apply_styles_loop_fold: "apply_styles_loop ps v = fold apply_styles_step ps v"
  by (induction ps arbitrary: v) simp_all

lemma step_string:
  "apply_styles_step (attr, JString s) v =
    (let name = replace_underscores attr in
     if name \<in> set (style_names (el v)) then set_style_property name s v
     else if ''-webkit-'' @ name \<in> set (style_names (el v))
       then set_style_property (''-webkit-'' @ name) s v
     else if ''-moz-'' @ name \<in> set (style_names (el v))
       then set_style_property (''-moz-'' @ name) s v
     else logger_trace (unknown_property name) v)"
  by (simp add: apply_styles_step_def apply_style_def Let_def set_style_property_def)

lemma step_other:
  "\<not> isString x \<Longrightarrow>
   apply_styles_step (attr, x) v =
    (let name = replace_underscores attr in
     if name \<in> set (style_names (el v)) \<or> ''-webkit-'' @ name \<in> set (style_names (el v))
        \<or> ''-moz-'' @ name \<in> set (style_names (el v))
     then v else logger_trace (unknown_property name) v)"
  by (cases x) (simp_all add: apply_styles_step_def apply_style_def Let_def)

lemma step_unknown:
  "replace_underscores attr \<notin> set (style_names (el v)) \<Longrightarrow>
   ''-webkit-'' @ replace_underscores attr \<notin> set (style_names (el v)) \<Longrightarrow>
   ''-moz-'' @ replace_underscores attr \<notin> set (style_names (el v)) \<Longrightarrow>
   apply_styles_step (attr, x) v = logger_trace (unknown_property (replace_underscores attr)) v"
  by (cases x) (simp_all add: apply_styles_step_def apply_style_def Let_def)

lemma spec_writes_other: "\<not> isString x \<Longrightarrow> spec_writes names (attr, x) = []"
  by (cases x) simp_all

lemma concat_spec_writes_other:
  "\<forall>(a, x) \<in> set ps. \<not> isString x \<Longrightarrow> concat (map (spec_writes names) ps) = []"
  by (induction ps) (auto simp: spec_writes_other)

text \<open>
  C7. For a pair whose value is a string, the name has its underscores replaced by
  hyphens and is assigned under the plain name when the host recognizes it; otherwise
  under the name with \<open>-webkit-\<close> when the host recognizes that; otherwise under the
  name with \<open>-moz-\<close> when the host recognizes that. When no variant is recognized,
  whatever the value, nothing is assigned and a trace message naming the property is
  recorded. There is no error: the loop goes through every enumerated pair, so after it
  the trace holds one message for each pair without a recognized name, and the element
  one assignment for each string pair with one, in the order of the pairs.
\<close>

theorem apply_styles_fallback:
  "(replace_underscores attr \<in> set (style_names (el v)) \<longrightarrow>
      apply_styles_step (attr, JString s) v = set_style_property (replace_underscores attr) s v)
   \<and> (replace_underscores attr \<notin> set (style_names (el v))
        \<and> ''-webkit-'' @ replace_underscores attr \<in> set (style_names (el v)) \<longrightarrow>
      apply_styles_step (attr, JString s) v
        = set_style_property (''-webkit-'' @ replace_underscores attr) s v)
   \<and> (replace_underscores attr \<notin> set (style_names (el v))
        \<and> ''-webkit-'' @ replace_underscores attr \<notin> set (style_names (el v))
        \<and> ''-moz-'' @ replace_underscores attr \<in> set (style_names (el v)) \<longrightarrow>
      apply_styles_step (attr, JString s) v
        = set_style_property (''-moz-'' @ replace_underscores attr) s v)
   \<and> (replace_underscores attr \<notin> set (style_names (el v))
        \<and> ''-webkit-'' @ replace_underscores attr \<notin> set (style_names (el v))
        \<and> ''-moz-'' @ replace_underscores attr \<notin> set (style_names (el v)) \<longrightarrow>
      apply_styles_step (attr, x) v
        = logger_trace (''unknown CSS property '' @ [CHR 0x27] @ replace_underscores attr @ [CHR 0x27]) v)
   \<and> p_apply_styles ma v
        = fold apply_styles_step (p_iter_styles ma (model_styles (model v))) v
   \<and> traced (p_apply_styles ma v)
        = traced v @ concat (map (spec_diagnostics (style_names (el v)))
                               (p_iter_styles ma (model_styles (model v))))
   \<and> style_writes (el (p_apply_styles ma v))
        = style_writes (el v) @ concat (map (spec_writes (style_names (el v)))
                               (p_iter_styles ma (model_styles (model v))))"
proof -
  have "p_apply_styles ma v
          = fold apply_styles_step (p_iter_styles ma (model_styles (model v))) v"
    by (simp add: p_apply_styles_def apply_styles_loop_fold)
  moreover have "traced (p_apply_styles ma v)
        = traced v @ concat (map (spec_diagnostics (style_names (el v)))
                               (p_iter_styles ma (model_styles (model v))))"
    by (simp add: p_apply_styles_closed)
  moreover have "style_writes (el (p_apply_styles ma v))
        = style_writes (el v) @ concat (map (spec_writes (style_names (el v)))
                               (p_iter_styles ma (model_styles (model v))))"
    by (simp add: p_apply_styles_closed)
  ultimately show ?thesis
    using step_unknown [of attr v x]
    by (simp add: step_string Let_def unknown_property_def)
qed

text \<open>
  The four cases at the element of \<open>root_view\<close>, which recognizes \<open>color\<close>,
  \<open>-webkit-mask\<close> and \<open>-moz-appearance\<close>, and the whole loop on \<open>styled_view\<close>.
\<close>

theorem apply_styles_fallback_witness:
  "replace_underscores ''color'' \<in> set (style_names (el root_view))
   \<and> style_writes (el (apply_styles_step (''color'', JString ''red'') root_view))
       = [(''color'', ''red'')]
   \<and> replace_underscores ''mask'' \<notin> set (style_names (el root_view))
   \<and> ''-webkit-'' @ replace_underscores ''mask'' \<in> set (style_names (el root_view))
   \<and> style_writes (el (apply_styles_step (''mask'', JString ''none'') root_view))
       = [(''-webkit-mask'', ''none'')]
   \<and> replace_underscores ''appearance'' \<notin> set (style_names (el root_view))
   \<and> ''-webkit-'' @ replace_underscores ''appearance'' \<notin> set (style_names (el root_view))
   \<and> ''-moz-'' @ replace_underscores ''appearance'' \<in> set (style_names (el root_view))
   \<and> style_writes (el (apply_styles_step (''appearance'', JString ''auto'') root_view))
       = [(''-moz-appearance'', ''auto'')]
   \<and> replace_underscores ''foo_bar'' \<notin> set (style_names (el root_view))
   \<and> ''-webkit-'' @ replace_underscores ''foo_bar'' \<notin> set (style_names (el root_view))
   \<and> ''-moz-'' @ replace_underscores ''foo_bar'' \<notin> set (style_names (el root_view))
   \<and> apply_styles_step (''foo_bar'', JString ''1'') root_view
       = root_view\<lparr>traced := [''unknown CSS property '' @ [CHR 0x27] @ ''foo-bar'' @ [CHR 0x27]]\<rparr>
   \<and> style_writes (el (p_apply_styles [] styled_view))
       = [(''color'', ''red''), (''-webkit-mask'', ''none''), (''-moz-appearance'', ''auto'')]
   \<and> traced (p_apply_styles [] styled_view)
       = [''unknown CSS property '' @ [CHR 0x27] @ ''foo-bar'' @ [CHR 0x27],
          ''unknown CSS property '' @ [CHR 0x27] @ ''baz'' @ [CHR 0x27]]"
proof -
  note defs = replace_underscores_def root_view_def host_el_def set_style_property_def
    logger_trace_def styled_view_def styled_model_def button_model_def spec_diagnostics_def
    first_known_def unknown_property_def
  have k1: "replace_underscores ''color'' \<in> set (style_names (el root_view))"
    by (simp add: defs)
  have k2: "replace_underscores ''mask'' \<notin> set (style_names (el root_view))
     \<and> ''-webkit-'' @ replace_underscores ''mask'' \<in> set (style_names (el root_view))"
    by (simp add: defs)
  have k3: "replace_underscores ''appearance'' \<notin> set (style_names (el root_view))
     \<and> ''-webkit-'' @ replace_underscores ''appearance'' \<notin> set (style_names (el root_view))
     \<and> ''-moz-'' @ replace_underscores ''appearance'' \<in> set (style_names (el root_view))"
    by (simp add: defs)
  have k4: "replace_underscores ''foo_bar'' \<notin> set (style_names (el root_view))
     \<and> ''-webkit-'' @ replace_underscores ''foo_bar'' \<notin> set (style_names (el root_view))
     \<and> ''-moz-'' @ replace_underscores ''foo_bar'' \<notin> set (style_names (el root_view))"
    by (simp add: defs)
  note t1 = apply_styles_fallback
    [where attr = "''color''" and v = root_view and s = "''red''" and x = JNull and ma = "[]"]
  note t2 = apply_styles_fallback
    [where attr = "''mask''" and v = root_view and s = "''none''" and x = JNull and ma = "[]"]
  note t3 = apply_styles_fallback
    [where attr = "''appearance''" and v = root_view and s = "''auto''" and x = JNull
       and ma = "[]"]
  note t4 = apply_styles_fallback
    [where attr = "''foo_bar''" and v = root_view and s = "''1''" and x = "JString ''1''"
       and ma = "[]"]
  note t5 = apply_styles_fallback
    [where attr = "''color''" and v = styled_view and s = "''red''" and x = JNull
       and ma = "[]"]
  note c1 = t1 [THEN conjunct1, THEN mp, OF k1]
  note c2 = t2 [THEN conjunct2, THEN conjunct1, THEN mp, OF k2]
  note c3 = t3 [THEN conjunct2, THEN conjunct2, THEN conjunct1, THEN mp, OF k3]
  note c4 = t4 [THEN conjunct2, THEN conjunct2, THEN conjunct2, THEN conjunct1, THEN mp, OF k4]
  note c6 = t5 [THEN conjunct2, THEN conjunct2, THEN conjunct2, THEN conjunct2, THEN conjunct2,
                THEN conjunct1]
  note c7 = t5 [THEN conjunct2, THEN conjunct2, THEN conjunct2, THEN conjunct2, THEN conjunct2,
                THEN conjunct2]
  show ?thesis
    unfolding c1 c2 c3 c4 c6 c7
    by (simp add: defs)
qed

text \<open>
  C4, as amended. For a pair whose value is not a string nothing is assigned, whether its
  name is recognized or not. No diagnostic is recorded when the name is recognized in
  some variant; when it is recognized in none, the trace message naming the property is
  recorded all the same. Styles without any string value leave the element as it is.
\<close>

theorem non_string_value_rule:
  "(\<not> isString x \<longrightarrow>
      el (apply_styles_step (attr, x) v) = el v
      \<and> (replace_underscores attr \<in> set (style_names (el v))
          \<or> ''-webkit-'' @ replace_underscores attr \<in> set (style_names (el v))
          \<or> ''-moz-'' @ replace_underscores attr \<in> set (style_names (el v))
          \<longrightarrow> apply_styles_step (attr, x) v = v)
      \<and> (replace_underscores attr \<notin> set (style_names (el v))
          \<and> ''-webkit-'' @ replace_underscores attr \<notin> set (style_names (el v))
          \<and> ''-moz-'' @ replace_underscores attr \<notin> set (style_names (el v))
          \<longrightarrow> apply_styles_step (attr, x) v
              = v\<lparr>traced := traced v
                   @ [''unknown CSS property '' @ [CHR 0x27] @ replace_underscores attr @ [CHR 0x27]]\<rparr>))
   \<and> ((\<forall>(a, y) \<in> set (p_iter_styles ma (model_styles (model v))). \<not> isString y)
        \<longrightarrow> el (p_apply_styles ma v) = el v)"
proof -
  have "el (p_apply_styles ma v) = el v"
    if "\<forall>(a, y) \<in> set (p_iter_styles ma (model_styles (model v))). \<not> isString y"
    using that by (simp add: p_apply_styles_closed concat_spec_writes_other)
  moreover have "el (apply_styles_step (attr, x) v) = el v" if "\<not> isString x"
    using that by (simp add: step_other Let_def logger_trace_def)
  ultimately show ?thesis
    by (auto simp: step_other Let_def logger_trace_def unknown_property_def)
qed

text \<open>
  A null value under the recognized name \<open>color\<close> and under the unknown name \<open>baz\<close>,
  and a view whose styles are these two pairs.
\<close>

theorem non_string_value_rule_witness:
  "\<not> isString JNull
   \<and> replace_underscores ''color'' \<in> set (style_names (el root_view))
   \<and> apply_styles_step (''color'', JNull) root_view = root_view
   \<and> replace_underscores ''baz'' \<notin> set (style_names (el root_view))
   \<and> ''-webkit-'' @ replace_underscores ''baz'' \<notin> set (style_names (el root_view))
   \<and> ''-moz-'' @ replace_underscores ''baz'' \<notin> set (style_names (el root_view))
   \<and> apply_styles_step (''baz'', JNull) root_view
       = root_view\<lparr>traced := [''unknown CSS property '' @ [CHR 0x27] @ ''baz'' @ [CHR 0x27]]\<rparr>
   \<and> list_all (\<lambda>(a, y). \<not> isString y) (p_iter_styles [] (model_styles (model null_styled_view)))
   \<and> el (p_apply_styles [] null_styled_view) = el null_styled_view"
proof -
  note defs = replace_underscores_def root_view_def host_el_def null_styled_view_def
    with_styles_def button_model_def
  have n: "\<not> isString JNull"
    by simp
  have k1: "replace_underscores ''color'' \<in> set (style_names (el root_view))
     \<or> ''-webkit-'' @ replace_underscores ''color'' \<in> set (style_names (el root_view))
     \<or> ''-moz-'' @ replace_underscores ''color'' \<in> set (style_names (el root_view))"
    by (simp add: defs)
  have k2: "replace_underscores ''baz'' \<notin> set (style_names (el root_view))
     \<and> ''-webkit-'' @ replace_underscores ''baz'' \<notin> set (style_names (el root_view))
     \<and> ''-moz-'' @ replace_underscores ''baz'' \<notin> set (style_names (el root_view))"
    by (simp add: defs)
  have k3: "\<forall>(a, y) \<in> set (p_iter_styles [] (model_styles (model null_styled_view))).
              \<not> isString y"
    by (simp add: defs)
  note t1 = non_string_value_rule
    [where x = JNull and attr = "''color''" and v = root_view and ma = "[]"]
  note t2 = non_string_value_rule
    [where x = JNull and attr = "''baz''" and v = root_view and ma = "[]"]
  note t3 = non_string_value_rule
    [where x = JNull and attr = "''baz''" and v = null_styled_view and ma = "[]"]
  note c1 = t1 [THEN conjunct1, THEN mp, OF n, THEN conjunct2, THEN conjunct1, THEN mp, OF k1]
  note c2 = t2 [THEN conjunct1, THEN mp, OF n, THEN conjunct2, THEN conjunct2, THEN mp, OF k2]
  note c3 = t3 [THEN conjunct2, THEN mp, OF k3]
  show ?thesis
    unfolding c1 c2 c3
    by (simp add: defs)
qed

text \<open>
  C4 as stated fails: the pair of the unknown name \<open>baz\<close> and null is not skipped
  silently, a trace message is recorded for it.
\<close>

theorem non_string_value_counterexample:
  "\<not> isString JNull
   \<and> traced root_view = []
   \<and> traced (apply_styles_step (''baz'', JNull) root_view)
       = [''unknown CSS property '' @ [CHR 0x27] @ ''baz'' @ [CHR 0x27]]
   \<and> model_styles (model null_styled_view) = CSSStyles [(''color'', JNull), (''baz'', JNull)]
   \<and> traced (p_apply_styles [] null_styled_view)
       = [''unknown CSS property '' @ [CHR 0x27] @ ''baz'' @ [CHR 0x27]]
   \<and> traced (p_apply_styles [] null_styled_view) \<noteq> traced null_styled_view"
  by (simp add: p_apply_styles_def apply_styles_step_def apply_style_def Let_def
      logger_trace_def unknown_property_def replace_underscores_def null_styled_view_def
      with_styles_def root_view_def host_el_def button_model_def)

text \<open>
  C5. A typed \<^verbatim>\<open>Styles\<close> record enumerates the pairs a plain mapping of the same
  pairs enumerates, without those whose attribute is a property name of the base model.
  Applying it does to the element and to the trace what applying the plain mapping of the
  remaining pairs does, and its assignments are among those of the plain mapping of all
  the pairs.
\<close>

theorem typed_and_plain_styles:
  "p_iter_styles ma (Styles ps) = [(a, x) \<leftarrow> p_iter_styles ma (CSSStyles ps). a \<notin> set ma]
   \<and> el (p_apply_styles ma (with_styles (Styles ps) v))
       = el (p_apply_styles ma (with_styles (CSSStyles [(a, x) \<leftarrow> ps. a \<notin> set ma]) v))
   \<and> traced (p_apply_styles ma (with_styles (Styles ps) v))
       = traced (p_apply_styles ma (with_styles (CSSStyles [(a, x) \<leftarrow> ps. a \<notin> set ma]) v))
   \<and> set (style_writes (el (p_apply_styles ma (with_styles (Styles ps) v))))
       \<subseteq> set (style_writes (el (p_apply_styles ma (with_styles (CSSStyles ps) v))))"
  by (auto simp: p_apply_styles_closed with_styles_def)

text \<open>
  With \<open>name\<close> and \<open>tags\<close> as the base model's property names: the typed record
  assigns \<open>color\<close> only, as the plain mapping of \<open>color\<close> alone does, while the plain
  mapping of all three pairs also reports \<open>name\<close> and \<open>tags\<close> as unknown.
\<close>

theorem typed_and_plain_styles_witness:
  "style_writes (el (p_apply_styles [''name'', ''tags''] (with_styles (Styles typed_pairs) root_view)))
     = [(''color'', ''red'')]
   \<and> style_writes (el (p_apply_styles [''name'', ''tags'']
        (with_styles (CSSStyles [(''color'', JString ''red'')]) root_view)))
     = [(''color'', ''red'')]
   \<and> traced (p_apply_styles [''name'', ''tags''] (with_styles (Styles typed_pairs) root_view)) = []
   \<and> traced (p_apply_styles [''name'', ''tags''] (with_styles (CSSStyles typed_pairs) root_view))
     = [''unknown CSS property '' @ [CHR 0x27] @ ''name'' @ [CHR 0x27],
        ''unknown CSS property '' @ [CHR 0x27] @ ''tags'' @ [CHR 0x27]]"
proof -
  note t = typed_and_plain_styles
    [where ma = "[''name'', ''tags'']" and ps = typed_pairs and v = root_view]
  have f: "[(a, x) \<leftarrow> typed_pairs. a \<notin> set [''name'', ''tags'']] = [(''color'', JString ''red'')]"
    by (simp add: typed_pairs_def)
  note c2 = t [THEN conjunct2, THEN conjunct1, unfolded f]
  note c3 = t [THEN conjunct2, THEN conjunct2, THEN conjunct1, unfolded f]
  have w: "style_writes (el (p_apply_styles [''name'', ''tags'']
        (with_styles (CSSStyles [(''color'', JString ''red'')]) root_view)))
     = [(''color'', ''red'')]"
    by (simp add: p_apply_styles_def apply_styles_step_def apply_style_def Let_def
        set_style_property_def replace_underscores_def with_styles_def root_view_def host_el_def)
  have tr: "traced (p_apply_styles [''name'', ''tags'']
        (with_styles (CSSStyles [(''color'', JString ''red'')]) root_view)) = []"
    by (simp add: p_apply_styles_def apply_styles_step_def apply_style_def Let_def
        set_style_property_def replace_underscores_def with_styles_def root_view_def host_el_def)
  have pl: "traced (p_apply_styles [''name'', ''tags''] (with_styles (CSSStyles typed_pairs) root_view))
     = [''unknown CSS property '' @ [CHR 0x27] @ ''name'' @ [CHR 0x27],
        ''unknown CSS property '' @ [CHR 0x27] @ ''tags'' @ [CHR 0x27]]"
    by (simp add: p_apply_styles_def apply_styles_step_def apply_style_def Let_def
        set_style_property_def replace_underscores_def with_styles_def root_view_def host_el_def
        typed_pairs_def logger_trace_def unknown_property_def)
  show ?thesis
    using w tr pl by (simp add: c2 c3)
qed

subsection \<open>Stylesheets\<close>

text \<open>The loops of \<^verbatim>\<open>_apply_stylesheets\<close> in closed form.\<close>

lemma push_declarations_closed:
  "push_declarations ps out = out @ concat (map spec_declaration ps)"
proof (induction ps arbitrary: out)
  case Nil
  show ?case by simp
next
  case (Cons p ps)
  obtain attr x where p: "p = (attr, x)" by (cases p)
  show ?case
    unfolding p by (cases x) (simp_all add: Cons.IH Let_def)
qed

lemma push_blocks_closed:
  "push_blocks ma entries out = out @ concat (map (spec_block ma) entries)"
proof (induction entries arbitrary: out)
  case Nil
  show ?case by simp
next
  case (Cons e entries)
  obtain selector st where e: "e = (selector, st)" by (cases e)
  show ?case
    unfolding e by (simp add: Cons.IH push_declarations_closed spec_block_def)
qed

lemma spec_declaration_omitted:
  "\<not> isString x \<or> x = JString [] \<Longrightarrow> spec_declaration (attr, x) = []"
  by (cases x) auto

lemma no_declarations:
  "\<forall>(a, x) \<in> set ps. \<not> isString x \<or> x = JString [] \<Longrightarrow> concat (map spec_declaration ps) = []"
  by (induction ps) (auto simp: spec_declaration_omitted)

text \<open>
  C6. A mapping renders to the lines of its blocks, in the order of its selectors, joined
  by newlines; a block is the line of the selector followed by an opening brace, one line
  of two spaces, name, colon, value and semicolon for each enumerated pair whose value is
  a string that is not empty, the underscores of the name replaced by hyphens, and the
  line of the closing brace. The mapping of \<open>.sel\<close> to \<open>color: red\<close> and an empty
  \<open>bg_color\<close> renders to three lines. Rendering is a function of the mapping alone; all
  that \<^verbatim>\<open>_apply_stylesheets\<close> does is hand the rendered sheets to the base method.
\<close>

theorem render_stylesheet_rule:
  "render_stylesheet ma (PlainObject entries)
     = CssText (join [CHR 0x0A] (concat (map (spec_block ma) entries)))
   \<and> render_stylesheet ma
        (PlainObject [(''.sel'', CSSStyles [(''color'', JString ''red''), (''bg_color'', JString '''')])])
     = CssText (''.sel {'' @ [CHR 0x0A] @ ''  color: red;'' @ [CHR 0x0A] @ ''}'')
   \<and> p_apply_stylesheets ma sheets v
     = super_apply_stylesheets (map (render_stylesheet ma) sheets) v"
  by (simp add: render_stylesheet_def push_blocks_closed p_apply_stylesheets_def
      super_apply_stylesheets_def spec_block_def replace_underscores_def)

text \<open>
  Two selectors, with \<open>name\<close> as a property name of the base model: the order is kept,
  \<open>font_size\<close> becomes \<open>font-size\<close>.
\<close>

theorem render_stylesheet_rule_witness:
  "render_stylesheet [''name''] two_blocks
     = CssText (''.a {'' @ [CHR 0x0A] @ ''}'' @ [CHR 0x0A] @ ''.b {'' @ [CHR 0x0A]
          @ ''  font-size: 12px;'' @ [CHR 0x0A] @ ''}'')"
  unfolding two_blocks_def
    render_stylesheet_rule [where ma = "[''name'']" and sheets = "[]" and v = root_view, THEN conjunct1]
  by (simp add: spec_block_def replace_underscores_def)

text \<open>
  C10. A selector all of whose pairs are omitted, their values being empty or not strings,
  still renders to its opening and closing lines: alone it gives the two lines of an
  empty block, and in any mapping its two lines stand next to each other among the lines
  that are joined.
\<close>

theorem empty_block_kept:
  "((\<forall>(a, x) \<in> set (p_iter_styles ma st). \<not> isString x \<or> x = JString [])
      \<longrightarrow> render_stylesheet ma (PlainObject [(selector, st)])
            = CssText (selector @ '' {'' @ [CHR 0x0A] @ ''}''))
   \<and> ((selector, st) \<in> set entries
        \<and> (\<forall>(a, x) \<in> set (p_iter_styles ma st). \<not> isString x \<or> x = JString [])
      \<longrightarrow> (\<exists>before after.
            render_stylesheet ma (PlainObject entries)
              = CssText (join [CHR 0x0A] (before @ [selector @ '' {'', ''}''] @ after))))"
proof -
  have one: "spec_block ma (selector, st) = [selector @ '' {'', ''}'']"
    if "\<forall>(a, x) \<in> set (p_iter_styles ma st). \<not> isString x \<or> x = JString []"
    using that by (simp add: spec_block_def no_declarations)
  have single: "render_stylesheet ma (PlainObject [(selector, st)])
            = CssText (selector @ '' {'' @ [CHR 0x0A] @ ''}'')"
    if "\<forall>(a, x) \<in> set (p_iter_styles ma st). \<not> isString x \<or> x = JString []"
    using one [OF that] by (simp add: render_stylesheet_def push_blocks_closed)
  have many: "\<exists>before after.
            render_stylesheet ma (PlainObject entries)
              = CssText (join [CHR 0x0A] (before @ [selector @ '' {'', ''}''] @ after))"
    if m: "(selector, st) \<in> set entries"
      and h: "\<forall>(a, x) \<in> set (p_iter_styles ma st). \<not> isString x \<or> x = JString []"
  proof -
    from m obtain es1 es2 where "entries = es1 @ (selector, st) # es2"
      by (auto simp: in_set_conv_decomp)
    then have "push_blocks ma entries []
        = concat (map (spec_block ma) es1) @ [selector @ '' {'', ''}'']
            @ concat (map (spec_block ma) es2)"
      by (simp add: push_blocks_closed one [OF h])
    then show ?thesis
      by (auto simp: render_stylesheet_def)
  qed
  from single many show ?thesis
    by blast
qed

theorem empty_block_kept_witness:
  "list_all (\<lambda>(a, x). \<not> isString x \<or> x = JString [])
      (p_iter_styles [''name''] (CSSStyles [(''color'', JNull), (''margin_top'', JString '''')]))
   \<and> render_stylesheet [''name'']
        (PlainObject [(''.a'', CSSStyles [(''color'', JNull), (''margin_top'', JString '''')])])
      = CssText (''.a {'' @ [CHR 0x0A] @ ''}'')"
proof -
  have h: "\<forall>(a, x) \<in> set (p_iter_styles [''name'']
              (CSSStyles [(''color'', JNull), (''margin_top'', JString '''')])).
            \<not> isString x \<or> x = JString []"
    by simp
  note t = empty_block_kept
    [where ma = "[''name'']" and selector = "''.a''"
       and st = "CSSStyles [(''color'', JNull), (''margin_top'', JString '''')]"
       and entries = "[]", THEN conjunct1, THEN mp, OF h]
  show ?thesis
    unfolding t by simp
qed

subsection \<open>Visibility\<close>

text \<open>
  C8. From a view to which the visibility has been applied with \<open>visible\<close> true, making
  it invisible and visible again gives back the same view, so the same content of the
  display stylesheet: empty, while in between it is the \<open>display: none\<close> rule.
\<close>

theorem visible_round_trip:
  "set_visible True (set_visible False (set_visible True v)) = set_visible True v
   \<and> p_display (set_visible True (set_visible False (set_visible True v)))
       = p_display (set_visible True v)
   \<and> css (p_display (set_visible True v)) = []
   \<and> css (p_display (set_visible False (set_visible True v)))
       = '':host { display: none !important; }''"
  by (simp add: set_visible_def p_apply_visible_def StyleSheet_clear_def StyleSheet_replace_def)

subsection \<open>Serialization\<close>

text \<open>
  C9, as amended. The snapshot is that of the base view with the key \<open>bbox\<close> set to the
  four fields of the current box. When a box is cached the call changes nothing. When none
  is cached the call computes the box and caches it; this is the only field of the view
  it can change, so both stylesheets and the element stay as they are.
\<close>

theorem serializable_state_rule:
  "fst (serializable_state subtract v)
     = (super_serializable_state v)
         (''bbox'' \<mapsto> SBox (box (fst (bbox subtract v))))
   \<and> (p_bbox v = Some b \<longrightarrow>
        serializable_state subtract v
          = ((super_serializable_state v)(''bbox'' \<mapsto> SBox (box b)), v))
   \<and> (p_bbox v = None \<longrightarrow>
        serializable_state subtract v =
          ((super_serializable_state v)
             (''bbox'' \<mapsto> SBox (box (the (p_bbox (p_update_bbox subtract v))))),
           p_update_bbox subtract v))
   \<and> snd (serializable_state subtract v)
       = v\<lparr>p_bbox := p_bbox (snd (serializable_state subtract v))\<rparr>
   \<and> p_bbox (snd (serializable_state subtract v)) \<noteq> None"
  by (simp add: serializable_state_def bbox_def p_update_bbox_def Let_def)

text \<open>
  Both cases at concrete views: \<open>stale_view\<close> has a box cached, \<open>root_view\<close> has none.
\<close>

theorem serializable_state_rule_witness:
  "p_bbox stale_view = Some (BBox \<lparr>left = 0, top = 0, width = 120, height = 41\<rparr>)
   \<and> snd (serializable_state subtract_exact stale_view) = stale_view
   \<and> fst (serializable_state subtract_exact stale_view) ''bbox''
       = Some (SBox \<lparr>left = 0, top = 0, width = 120, height = 41\<rparr>)
   \<and> p_bbox root_view = None
   \<and> snd (serializable_state subtract_exact root_view) = p_update_bbox subtract_exact root_view
   \<and> fst (serializable_state subtract_exact root_view) ''bbox''
       = Some (SBox \<lparr>left = 0, top = 0, width = 120, height = 41\<rparr>)"
  using serializable_state_rule
          [of subtract_exact stale_view "BBox \<lparr>left = 0, top = 0, width = 120, height = 41\<rparr>"]
        serializable_state_rule [of subtract_exact root_view]
  by (simp add: stale_view_def hidden_view_def root_view_def host_el_def p_update_bbox_def
      round_js_def)

text \<open>
  C9 as stated fails: \<open>root_view\<close> has no box cached, and the view after the call has
  one, so the call has changed the view.
\<close>

theorem serializable_state_counterexample:
  "p_bbox root_view = None
   \<and> p_bbox (snd (serializable_state subtract_exact root_view))
       = Some (BBox \<lparr>left = 0, top = 0, width = 120, height = 41\<rparr>)
   \<and> snd (serializable_state subtract_exact root_view) \<noteq> root_view"
proof -
  have a: "p_bbox root_view = None"
    by (simp add: root_view_def)
  have b: "p_bbox (snd (serializable_state subtract_exact root_view))
             = Some (BBox \<lparr>left = 0, top = 0, width = 120, height = 41\<rparr>)"
    by (simp add: serializable_state_def bbox_def p_update_bbox_def Let_def root_view_def
        host_el_def round_js_def)
  from a b have "p_bbox (snd (serializable_state subtract_exact root_view)) \<noteq> p_bbox root_view"
    by simp
  then have "snd (serializable_state subtract_exact root_view) \<noteq> root_view"
    by auto
  with a b show ?thesis
    by simp
qed

end
